theory Spec2Isabelle
  imports Main
begin

section \<open>Shared conventions\<close>

text \<open>
  A JavaScript string is a sequence of UTF-16 code units; a code unit is modelled as a
  natural number. \<open>str\<close> embeds an ASCII literal of the source.
\<close>

type_synonym jstring = "nat list"

definition str :: "string \<Rightarrow> jstring" where
  "str s = map of_char s"

text \<open>A thrown \<open>Error\<close> (or a rejected promise), with its message.\<close>

datatype error = Error jstring

section \<open>state.js: the fetch cache\<close>

text \<open>
  \<^verbatim>\<open>
  cache: {},
  cacheExpiry: 60000, // 1 minute

  async getCached(key, fetcher) {
    const now = Date.now();
    if (this.cache[key] && (now - this.cache[key].timestamp < this.cacheExpiry)) {
      return this.cache[key].data;
    }
    const data = await fetcher();
    this.cache[key] = { data, timestamp: now };
    return data;
  }
  \<close>
  The cache is a map from keys to entries. \<open>Date.now()\<close> is the parameter \<open>now\<close>
  (milliseconds). The producer \<open>fetcher\<close> is called at most once per call of
  \<open>getCached\<close>, so it is given by the outcome of awaiting it: \<open>Inl\<close> when it rejects,
  \<open>Inr\<close> when it resolves.

  A call runs in two turns of the event loop. The first turn reads the clock, tests the
  entry (\<open>cacheFresh\<close>) and, on a miss, invokes the producer. The second turn, after
  the \<open>await\<close>, stores the value under the time read in the first turn and returns it
  (\<open>cacheSettle\<close>); a rejection of the producer propagates and nothing is stored.
\<close>

record 'v cache_entry =
  data :: 'v
  timestamp :: int

type_synonym ('k, 'v) cache = "'k \<rightharpoonup> 'v cache_entry"






text \<open>\<^verbatim>\<open>RB_STATE.cache = {}\<close> (app.js, on every poll tick).\<close>

definition clearCache :: "('k, 'v) cache" where
  "clearCache = Map.empty"

section \<open>A backtracking matcher for the regular expressions of the source\<close>

text \<open>
  The source transforms text with JavaScript regular expressions. Each one is written
  below as a term of \<open>rx\<close>, node for node, and run by the backtracking matcher
  \<open>matcher\<close>, which follows the ECMAScript semantics: alternatives and quantifiers
  are tried in priority order (greedy: longest first; lazy: shortest first), and the
  first way that lets the rest of the pattern succeed wins.
  \<^item> \<open>CAny\<close> is \<^verbatim>\<open>[\s\S]\<close>, \<open>CDot\<close> is \<^verbatim>\<open>.\<close> (no line terminator),
    \<open>CIn\<close>/\<open>CNotIn\<close> are \<^verbatim>\<open>[...]\<close>/\<^verbatim>\<open>[^...]\<close>, \<open>CWord\<close> is \<^verbatim>\<open>\w\<close>,
    \<open>CSpace\<close> is \<^verbatim>\<open>\s\<close>.
  \<^item> \<open>Rep greedy min max r\<close> is a quantifier (\<open>max = None\<close>: unbounded), \<open>Grp i r\<close>
    the \<open>i\<close>-th capturing group, \<open>Bol\<close>/\<open>Eol\<close> are \<^verbatim>\<open>^\<close>/\<^verbatim>\<open>$\<close> (at a line
    terminator too when the \<open>m\<close> flag, the first argument of \<open>matcher\<close>, is set),
    \<open>NotBehind\<close>/\<open>NotAhead\<close> are \<^verbatim>\<open>(?<!c)\<close>/\<^verbatim>\<open>(?!c)\<close> on one character class.
\<close>

datatype cls = CAny | CDot | CIn jstring | CNotIn jstring | CWord | CSpace

definition isLineTerminator :: "nat \<Rightarrow> bool" where
  "isLineTerminator c \<longleftrightarrow> c = 10 \<or> c = 13 \<or> c = 8232 \<or> c = 8233"

definition isWhiteSpace :: "nat \<Rightarrow> bool" where
  "isWhiteSpace c \<longleftrightarrow>
     (9 \<le> c \<and> c \<le> 13) \<or> c = 32 \<or> c = 160 \<or> c = 5760 \<or> (8192 \<le> c \<and> c \<le> 8202)
     \<or> c = 8232 \<or> c = 8233 \<or> c = 8239 \<or> c = 8287 \<or> c = 12288 \<or> c = 65279"

definition isWordChar :: "nat \<Rightarrow> bool" where
  "isWordChar c \<longleftrightarrow>
     (48 \<le> c \<and> c \<le> 57) \<or> (65 \<le> c \<and> c \<le> 90) \<or> c = 95 \<or> (97 \<le> c \<and> c \<le> 122)"

fun cls_ok :: "cls \<Rightarrow> nat \<Rightarrow> bool" where
  "cls_ok CAny c = True"
| "cls_ok CDot c = (\<not> isLineTerminator c)"
| "cls_ok (CIn cs) c = (c \<in> set cs)"
| "cls_ok (CNotIn cs) c = (c \<notin> set cs)"
| "cls_ok CWord c = isWordChar c"
| "cls_ok CSpace c = isWhiteSpace c"

datatype rx =
    Cls cls
  | Lit jstring
  | Seq rx rx
  | Alt rx rx
  | Grp nat rx
  | Rep bool nat "nat option" rx
  | Bol
  | Eol
  | NotBehind cls
  | NotAhead cls

text \<open>
  A matcher state: the characters before the current position (nearest first), the
  characters from the current position on, and the captures so far.
\<close>

record mstate =
  prev :: jstring
  rest :: jstring
  caps :: "nat \<rightharpoonup> jstring"

fun rxsize :: "rx \<Rightarrow> nat" where
  "rxsize (Seq a b) = Suc (rxsize a + rxsize b)"
| "rxsize (Alt a b) = Suc (rxsize a + rxsize b)"
| "rxsize (Grp i r) = Suc (rxsize r)"
| "rxsize (Rep g mn mx r) = Suc (rxsize r)"
| "rxsize _ = 0"

fun rep_min :: "rx \<Rightarrow> nat" where
  "rep_min (Rep g mn mx r) = mn"
| "rep_min _ = 0"

fun dec_max :: "nat option \<Rightarrow> nat option" where
  "dec_max None = None"
| "dec_max (Some n) = Some (n - 1)"

text \<open>
  \<open>matcher ml r k st\<close> matches \<open>r\<close> at \<open>st\<close> and hands the state after it to the
  continuation \<open>k\<close> (the rest of the pattern); \<open>None\<close> is failure, which makes the
  caller try its next alternative. An iteration of a quantifier past its minimum must
  consume a character (the empty check of ECMAScript's RepeatMatcher).
\<close>

function (sequential) matcher ::
  "bool \<Rightarrow> rx \<Rightarrow> (mstate \<Rightarrow> mstate option) \<Rightarrow> mstate \<Rightarrow> mstate option" where
  "matcher ml (Cls c) k st =
     (case rest st of
        [] \<Rightarrow> None
      | x # xs \<Rightarrow> if cls_ok c x then k (st\<lparr>prev := x # prev st, rest := xs\<rparr>) else None)"
| "matcher ml (Lit s) k st =
     (if take (length s) (rest st) = s
      then k (st\<lparr>prev := rev s @ prev st, rest := drop (length s) (rest st)\<rparr>)
      else None)"
| "matcher ml (Seq a b) k st = matcher ml a (\<lambda>st'. matcher ml b k st') st"
| "matcher ml (Alt a b) k st =
     (case matcher ml a k st of Some r \<Rightarrow> Some r | None \<Rightarrow> matcher ml b k st)"
| "matcher ml (Grp i r) k st =
     matcher ml r
       (\<lambda>st'. k (st'\<lparr>caps := (caps st')(i \<mapsto> take (length (rest st) - length (rest st')) (rest st))\<rparr>))
       st"
| "matcher ml (Rep g mn mx r) k st =
     (if mx = Some 0 then k st
      else if 0 < mn then
        matcher ml r
          (\<lambda>st'. if length (rest st') \<le> length (rest st)
                 then matcher ml (Rep g (mn - 1) (dec_max mx) r) k st' else None) st
      else if g then
        (case matcher ml r
                (\<lambda>st'. if length (rest st') < length (rest st)
                       then matcher ml (Rep g 0 (dec_max mx) r) k st' else None) st of
           Some x \<Rightarrow> Some x
         | None \<Rightarrow> k st)
      else
        (case k st of
           Some x \<Rightarrow> Some x
         | None \<Rightarrow>
             matcher ml r
               (\<lambda>st'. if length (rest st') < length (rest st)
                      then matcher ml (Rep g 0 (dec_max mx) r) k st' else None) st))"
| "matcher ml Bol k st =
     (if prev st = [] \<or> (ml \<and> isLineTerminator (hd (prev st))) then k st else None)"
| "matcher ml Eol k st =
     (if rest st = [] \<or> (ml \<and> isLineTerminator (hd (rest st))) then k st else None)"
| "matcher ml (NotBehind c) k st =
     (case prev st of [] \<Rightarrow> k st | x # xs \<Rightarrow> if cls_ok c x then None else k st)"
| "matcher ml (NotAhead c) k st =
     (case rest st of [] \<Rightarrow> k st | x # xs \<Rightarrow> if cls_ok c x then None else k st)"
  by pat_completeness auto
termination
  by (relation "inv_image (less_than <*lex*> less_than)
        (\<lambda>(ml, r, k, st). (rxsize r, length (rest st) + rep_min r))") auto

declare matcher.simps [simp del]

text \<open>One match attempt at a position: \<open>bef\<close> is the text before it (reversed).\<close>

definition exec :: "bool \<Rightarrow> rx \<Rightarrow> jstring \<Rightarrow> jstring \<Rightarrow> mstate option" where
  "exec ml r bef s = matcher ml r Some \<lparr>prev = bef, rest = s, caps = Map.empty\<rparr>"

text \<open>A capture as a replacement sees it: the empty string when the group took no part.\<close>

definition grp :: "mstate \<Rightarrow> nat \<Rightarrow> jstring" where
  "grp st i = (case caps st i of None \<Rightarrow> [] | Some s \<Rightarrow> s)"

fun seqs :: "rx list \<Rightarrow> rx" where
  "seqs [] = Lit []"
| "seqs [r] = r"
| "seqs (r # rs) = Seq r (seqs rs)"

text \<open>
  \<^verbatim>\<open>s.replace(/r/g, f)\<close>: the leftmost match from the current position on is replaced
  by \<open>f matched groups\<close> and the search goes on after it (one character further after
  an empty match); unmatched characters are copied.
\<close>

function replaceAll ::
  "bool \<Rightarrow> rx \<Rightarrow> (jstring \<Rightarrow> (nat \<Rightarrow> jstring) \<Rightarrow> jstring) \<Rightarrow> jstring \<Rightarrow> jstring \<Rightarrow> jstring" where
  "replaceAll ml r f bef s =
     (case exec ml r bef s of
        None \<Rightarrow> (case s of [] \<Rightarrow> [] | x # xs \<Rightarrow> x # replaceAll ml r f (x # bef) xs)
      | Some st' \<Rightarrow>
          (if length s - length (rest st') = 0
           then f [] (grp st') @ (case s of [] \<Rightarrow> [] | x # xs \<Rightarrow> x # replaceAll ml r f (x # bef) xs)
           else f (take (length s - length (rest st')) s) (grp st')
                @ replaceAll ml r f (rev (take (length s - length (rest st')) s) @ bef)
                    (drop (length s - length (rest st')) s)))"
  by pat_completeness auto
termination
  by (relation "measure (\<lambda>(ml, r, f, bef, s). length s)") auto

declare replaceAll.simps [simp del]

text \<open>The same with a replacer that reads and updates a state (the list \<open>codeBlocks\<close>).\<close>

function replaceAllSt ::
  "bool \<Rightarrow> rx \<Rightarrow> ('s \<Rightarrow> jstring \<Rightarrow> (nat \<Rightarrow> jstring) \<Rightarrow> jstring \<times> 's) \<Rightarrow> 's \<Rightarrow> jstring \<Rightarrow> jstring
     \<Rightarrow> jstring \<times> 's" where
  "replaceAllSt ml r f u bef s =
     (case exec ml r bef s of
        None \<Rightarrow>
          (case s of
             [] \<Rightarrow> ([], u)
           | x # xs \<Rightarrow> (case replaceAllSt ml r f u (x # bef) xs of (out, u') \<Rightarrow> (x # out, u')))
      | Some st' \<Rightarrow>
          (if length s - length (rest st') = 0
           then (case s of
                   [] \<Rightarrow> f u [] (grp st')
                 | x # xs \<Rightarrow>
                     (case replaceAllSt ml r f (snd (f u [] (grp st'))) (x # bef) xs of
                        (out, u') \<Rightarrow> (fst (f u [] (grp st')) @ x # out, u')))
           else (case replaceAllSt ml r f (snd (f u (take (length s - length (rest st')) s) (grp st')))
                        (rev (take (length s - length (rest st')) s) @ bef)
                        (drop (length s - length (rest st')) s) of
                   (out, u') \<Rightarrow> (fst (f u (take (length s - length (rest st')) s) (grp st')) @ out, u'))))"
  by pat_completeness auto
termination
  by (relation "measure (\<lambda>(ml, r, f, u, bef, s). length s)") auto

declare replaceAllSt.simps [simp del]

text \<open>\<^verbatim>\<open>s.replace(/r/, f)\<close> without the \<open>g\<close> flag: the leftmost match only.\<close>

fun replaceFirst ::
  "bool \<Rightarrow> rx \<Rightarrow> (jstring \<Rightarrow> (nat \<Rightarrow> jstring) \<Rightarrow> jstring) \<Rightarrow> jstring \<Rightarrow> jstring \<Rightarrow> jstring" where
  "replaceFirst ml r f bef [] =
     (case exec ml r bef [] of None \<Rightarrow> [] | Some st' \<Rightarrow> f [] (grp st'))"
| "replaceFirst ml r f bef (x # xs) =
     (case exec ml r bef (x # xs) of
        None \<Rightarrow> x # replaceFirst ml r f (x # bef) xs
      | Some st' \<Rightarrow>
          f (take (length (x # xs) - length (rest st')) (x # xs)) (grp st')
          @ drop (length (x # xs) - length (rest st')) (x # xs))"

text \<open>\<^verbatim>\<open>s.match(/r/)\<close> without the \<open>g\<close> flag: the state after the leftmost match.\<close>

fun rxSearch :: "bool \<Rightarrow> rx \<Rightarrow> jstring \<Rightarrow> jstring \<Rightarrow> mstate option" where
  "rxSearch ml r bef [] = exec ml r bef []"
| "rxSearch ml r bef (x # xs) =
     (case exec ml r bef (x # xs) of
        Some st' \<Rightarrow> Some st'
      | None \<Rightarrow> rxSearch ml r (x # bef) xs)"

text \<open>\<^verbatim>\<open>/r/.test(s)\<close>.\<close>

definition rxTest :: "bool \<Rightarrow> rx \<Rightarrow> jstring \<Rightarrow> bool" where
  "rxTest ml r s = (rxSearch ml r [] s \<noteq> None)"

text \<open>
  \<^verbatim>\<open>s.split(/r/)\<close> for a pattern without capturing groups: \<open>cur\<close> collects the
  current piece (reversed); a match that is empty at the start of a piece is skipped.
\<close>

function splitLoop :: "bool \<Rightarrow> rx \<Rightarrow> jstring \<Rightarrow> jstring \<Rightarrow> jstring \<Rightarrow> jstring list" where
  "splitLoop ml r bef cur [] = [rev cur]"
| "splitLoop ml r bef cur (x # xs) =
     (case exec ml r bef (x # xs) of
        None \<Rightarrow> splitLoop ml r (x # bef) (x # cur) xs
      | Some st' \<Rightarrow>
          (if length (x # xs) - length (rest st') = 0
           then (if cur = [] then splitLoop ml r (x # bef) [x] xs
                 else rev cur # splitLoop ml r (x # bef) [x] xs)
           else rev cur
                # splitLoop ml r (rev (take (length (x # xs) - length (rest st')) (x # xs)) @ bef) []
                    (drop (length (x # xs) - length (rest st')) (x # xs))))"
  by pat_completeness auto
termination
  by (relation "measure (\<lambda>(ml, r, bef, cur, s). length s)") auto

declare splitLoop.simps [simp del]

definition splitRx :: "bool \<Rightarrow> rx \<Rightarrow> jstring \<Rightarrow> jstring list" where
  "splitRx ml r s =
     (if s = [] then (if exec ml r [] [] \<noteq> None then [] else [[]])
      else splitLoop ml r [] [] s)"

text \<open>\<^verbatim>\<open>s.split('\n')\<close>: split at every occurrence of one character.\<close>

fun splitChar :: "nat \<Rightarrow> jstring \<Rightarrow> jstring \<Rightarrow> jstring list" where
  "splitChar c cur [] = [rev cur]"
| "splitChar c cur (x # xs) =
     (if x = c then rev cur # splitChar c [] xs else splitChar c (x # cur) xs)"

text \<open>\<^verbatim>\<open>xs.join(sep)\<close>.\<close>

fun joinWith :: "jstring \<Rightarrow> jstring list \<Rightarrow> jstring" where
  "joinWith sep [] = []"
| "joinWith sep [x] = x"
| "joinWith sep (x # y # xs) = x @ sep @ joinWith sep (y # xs)"

text \<open>\<^verbatim>\<open>s.trim()\<close>: white space and line terminators go from both ends.\<close>

definition trim :: "jstring \<Rightarrow> jstring" where
  "trim s = rev (dropWhile isWhiteSpace (rev (dropWhile isWhiteSpace s)))"

text \<open>A number in a template literal: its decimal digits.\<close>

function showNat :: "nat \<Rightarrow> jstring" where
  "showNat n = (if n < 10 then [48 + n] else showNat (n div 10) @ [48 + n mod 10])"
  by pat_completeness auto
termination
  by (relation "measure id") auto

declare showNat.simps [simp del]



text \<open>A replacement that is a constant string without \<^verbatim>\<open>$\<close>.\<close>

definition constRepl :: "jstring \<Rightarrow> jstring \<Rightarrow> (nat \<Rightarrow> jstring) \<Rightarrow> jstring" where
  "constRepl s mt g = s"

definition nl :: jstring where
  "nl = [10]"

section \<open>markdown.js: the markdown renderer\<close>




































subsection \<open>Notions for stating what the renderer does to a text\<close>



text \<open>
  What the paragraph step and the line-break step together make of one block of a text
  without tags: nothing when the block is blank, otherwise a paragraph element around
  the trimmed block, with \<^verbatim>\<open><br>\<close> for each of its newlines.
\<close>

definition br :: "jstring \<Rightarrow> jstring" where
  "br s = concat (map (\<lambda>x. if x = 10 then str ''<br>'' else [x]) s)"


text \<open>\<open>occurs pat s\<close>: the text \<open>pat\<close> occurs somewhere in \<open>s\<close>.\<close>

fun occurs :: "jstring \<Rightarrow> jstring \<Rightarrow> bool" where
  "occurs pat [] = (pat = [])"
| "occurs pat (x # xs) = (take (length pat) (x # xs) = pat \<or> occurs pat xs)"











section \<open>discussions.js: bylines\<close>

text \<open>
  \<^verbatim>\<open>
  extractAuthor(body) {
    if (!body) return null;
    const postMatch = body.match(/^\*Posted by \*\*([^*]+)\*\*\*/m);
    if (postMatch) return postMatch[1];
    const commentMatch = body.match(/^\*<em dash> \*\*([^*]+)\*\*\*/m);
    if (commentMatch) return commentMatch[1];
    return null;
  }
  \<close>
  The second pattern starts with an asterisk, an em dash (code unit 8212) and a space.
  Both patterns carry the \<open>m\<close> flag.
\<close>

definition postBylineRx :: rx where
  "postBylineRx =
     seqs [Bol, Lit (str ''*Posted by **''), Grp 1 (Rep True 1 None (Cls (CNotIn (str ''*'')))),
           Lit (str ''***'')]"

definition commentBylineRx :: rx where
  "commentBylineRx =
     seqs [Bol, Lit ([42, 8212, 32] @ str ''**''), Grp 1 (Rep True 1 None (Cls (CNotIn (str ''*'')))),
           Lit (str ''***'')]"

definition extractAuthor :: "jstring \<Rightarrow> jstring option" where
  "extractAuthor body =
     (if body = [] then None
      else case rxSearch True postBylineRx [] body of
             Some st \<Rightarrow> Some (grp st 1)
           | None \<Rightarrow>
               (case rxSearch True commentBylineRx [] body of
                  Some st \<Rightarrow> Some (grp st 1)
                | None \<Rightarrow> None))"

text \<open>
  \<^verbatim>\<open>
  stripByline(body) {
    if (!body) return body;
    body = body.replace(/^\*Posted by \*\*[^*]+\*\*\*\s*\n---\s*\n?/, '');
    body = body.replace(/^\*<em dash> \*\*[^*]+\*\*\*\s*\n?/, '');
    return body;
  }
  \<close>
  Neither pattern carries a flag.
\<close>

definition stripPostRx :: rx where
  "stripPostRx =
     seqs [Bol, Lit (str ''*Posted by **''), Rep True 1 None (Cls (CNotIn (str ''*''))),
           Lit (str ''***''), Rep True 0 None (Cls CSpace), Lit (nl @ str ''---''),
           Rep True 0 None (Cls CSpace), Rep True 0 (Some 1) (Lit nl)]"

definition stripCommentRx :: rx where
  "stripCommentRx =
     seqs [Bol, Lit ([42, 8212, 32] @ str ''**''), Rep True 1 None (Cls (CNotIn (str ''*''))),
           Lit (str ''***''), Rep True 0 None (Cls CSpace), Rep True 0 (Some 1) (Lit nl)]"

definition stripByline :: "jstring \<Rightarrow> jstring" where
  "stripByline body =
     (if body = [] then body
      else replaceFirst False stripCommentRx (constRepl []) []
             (replaceFirst False stripPostRx (constRepl []) [] body))"

section \<open>JSON values, exceptions and the network\<close>

text \<open>
  The values the client reads from responses and builds from them. \<open>JUndefined\<close> is
  JavaScript's \<open>undefined\<close> (a missing property). An object is its list of properties;
  where a name occurs twice the last one counts.
\<close>

datatype json =
    JNull
  | JUndefined
  | JBool bool
  | JNum int
  | JStr jstring
  | JArr "json list"
  | JObj "(jstring \<times> json) list"

type_synonym obj = "(jstring \<times> json) list"

text \<open>Truthiness, as \<^verbatim>\<open>!x\<close>, \<^verbatim>\<open>x ? a : b\<close> and \<^verbatim>\<open>x || y\<close> read it.\<close>

fun truthy :: "json \<Rightarrow> bool" where
  "truthy JNull = False"
| "truthy JUndefined = False"
| "truthy (JBool b) = b"
| "truthy (JNum n) = (n \<noteq> 0)"
| "truthy (JStr s) = (s \<noteq> [])"
| "truthy (JArr xs) = True"
| "truthy (JObj kvs) = True"

definition orElse :: "json \<Rightarrow> json \<Rightarrow> json" where
  "orElse a b = (if truthy a then a else b)"

definition typeError :: error where
  "typeError = Error (str ''TypeError'')"

text \<open>A property of an object.\<close>

definition objProp :: "obj \<Rightarrow> jstring \<Rightarrow> json" where
  "objProp kvs k = (case map_of (rev kvs) k of Some v \<Rightarrow> v | None \<Rightarrow> JUndefined)"

text \<open>
  \<^verbatim>\<open>x.k\<close> on any value: a TypeError on \<open>null\<close> and \<open>undefined\<close>, \<open>undefined\<close> on the
  other values that are not objects (the source reads no built-in property of them).
\<close>

fun getProp :: "json \<Rightarrow> jstring \<Rightarrow> error + json" where
  "getProp JNull k = Inl typeError"
| "getProp JUndefined k = Inl typeError"
| "getProp (JObj kvs) k = Inr (objProp kvs k)"
| "getProp (JBool b) k = Inr JUndefined"
| "getProp (JNum n) k = Inr JUndefined"
| "getProp (JStr s) k = Inr JUndefined"
| "getProp (JArr xs) k = Inr JUndefined"

text \<open>The same where the value is known not to be \<open>null\<close> or \<open>undefined\<close>.\<close>

definition propOf :: "json \<Rightarrow> jstring \<Rightarrow> json" where
  "propOf x k = (case getProp x k of Inr v \<Rightarrow> v | Inl e \<Rightarrow> JUndefined)"

text \<open>Sequencing of steps that may throw: the first exception ends the computation.\<close>

definition bindE :: "error + 'a \<Rightarrow> ('a \<Rightarrow> error + 'b) \<Rightarrow> error + 'b" where
  "bindE m f = (case m of Inl e \<Rightarrow> Inl e | Inr x \<Rightarrow> f x)"

fun mapE :: "('a \<Rightarrow> error + 'b) \<Rightarrow> 'a list \<Rightarrow> error + 'b list" where
  "mapE f [] = Inr []"
| "mapE f (x # xs) = bindE (f x) (\<lambda>y. bindE (mapE f xs) (\<lambda>ys. Inr (y # ys)))"

text \<open>
  A request, as far as the source sets it: URL, method, the \<open>Authorization\<close> header and
  the body (the object given to \<open>JSON.stringify\<close>, \<open>JUndefined\<close> when there is none).
\<close>

record request =
  req_url :: jstring
  req_method :: jstring
  req_authorization :: "jstring option"
  req_body :: json

text \<open>
  A response: the status, the status text and what \<^verbatim>\<open>await response.json()\<close>
  gives (\<open>Inl\<close> when the body is no JSON). \<open>response.ok\<close> is a status from 200 to 299.
\<close>

record response =
  status :: nat
  statusText :: jstring
  jsonBody :: "error + json"

definition ok :: "response \<Rightarrow> bool" where
  "ok r \<longleftrightarrow> 200 \<le> status r \<and> status r \<le> 299"

text \<open>
  The network answers a request, given the requests issued before it: \<open>Inl\<close> when
  \<open>fetch\<close> rejects (no connection), \<open>Inr\<close> with the response otherwise.
\<close>

type_synonym network = "request list \<Rightarrow> request \<Rightarrow> error + response"

text \<open>
  The state of the page that the modelled functions read and write:
  \<^item> \<open>OWNER\<close>, \<open>REPO\<close>, \<open>BRANCH\<close>: the fields of \<open>RB_STATE\<close>;
  \<^item> \<open>token\<close>: the item \<open>rb_access_token\<close> of \<open>localStorage\<close> (\<open>RB_AUTH.getToken\<close>);
  \<^item> \<open>repoInfo\<close>: \<open>RB_DISCUSSIONS._repoInfo\<close>;
  \<^item> \<open>requests\<close>: every request issued so far, in order;
  \<^item> \<open>location\<close>: the URL assigned to \<open>window.location.href\<close>, if any;
  \<^item> \<open>redirectUri\<close>: \<^verbatim>\<open>encodeURIComponent(window.location.origin + window.location.pathname)\<close>;
  \<^item> \<open>app\<close>: the \<open>innerHTML\<close> of the element \<open>#app\<close>;
  \<^item> \<open>feed\<close>: the posts rendered into the element \<open>#feed-container\<close>;
  \<^item> \<open>loadMoreButton\<close>: whether the "Load More" button is in the page;
  \<^item> \<open>homePostsLoaded\<close>: \<open>RB_ROUTER._homePostsLoaded\<close>;
  \<^item> \<open>wired\<close>: the discussion numbers whose detail page had its handlers attached.
\<close>

record world =
  OWNER :: jstring
  REPO :: jstring
  BRANCH :: jstring
  token :: "jstring option"
  repoInfo :: "obj option"
  requests :: "request list"
  location :: "jstring option"
  redirectUri :: jstring
  app :: jstring
  feed :: "json list"
  loadMoreButton :: bool
  homePostsLoaded :: nat
  wired :: "jstring list"

definition fetch :: "network \<Rightarrow> request \<Rightarrow> world \<Rightarrow> (error + response) \<times> world" where
  "fetch net req w = (net (requests w) req, w\<lparr>requests := requests w @ [req]\<rparr>)"

section \<open>The authentication module (RB_AUTH)\<close>

text \<open>
  \<^verbatim>\<open>
  CLIENT_ID: 'Ov23liuueQBIUggrH8NG',
  getToken() { return localStorage.getItem('rb_access_token'); },
  isAuthenticated() { return !!this.getToken(); },
  login() {
    if (!this.CLIENT_ID) { console.warn(...); return; }
    const redirectUri = window.location.origin + window.location.pathname;
    const scope = 'public_repo';
    const url = `https://github.com/login/oauth/authorize?client_id=${this.CLIENT_ID}&redirect_uri=${encodeURIComponent(redirectUri)}&scope=${scope}`;
    window.location.href = url;
  }
  \<close>
\<close>

definition CLIENT_ID :: jstring where
  "CLIENT_ID = str ''Ov23liuueQBIUggrH8NG''"

definition getToken :: "world \<Rightarrow> jstring option" where
  "getToken w = token w"

text \<open>\<^verbatim>\<open>!token\<close>: no item stored, or the empty string stored.\<close>

definition noToken :: "jstring option \<Rightarrow> bool" where
  "noToken t = (case t of None \<Rightarrow> True | Some s \<Rightarrow> s = [])"

definition isAuthenticated :: "world \<Rightarrow> bool" where
  "isAuthenticated w = (\<not> noToken (getToken w))"

definition login :: "world \<Rightarrow> world" where
  "login w =
     (if CLIENT_ID = [] then w
      else w\<lparr>location := Some (str ''https://github.com/login/oauth/authorize?client_id='' @ CLIENT_ID
                               @ str ''&redirect_uri='' @ redirectUri w
                               @ str ''&scope=public_repo'')\<rparr>)"

section \<open>discussions.js: mutations\<close>

text \<open>
  \<^verbatim>\<open>
  async graphql(query, variables = {}) {
    const token = RB_AUTH.getToken();
    if (!token) throw new Error('Not authenticated');
    const response = await fetch('https://api.github.com/graphql', {
      method: 'POST',
      headers: { 'Authorization': `bearer ${token}`, 'Content-Type': 'application/json' },
      body: JSON.stringify({ query, variables })
    });
    if (!response.ok) { throw new Error(`GraphQL request failed: ${response.status}`); }
    const json = await response.json();
    if (json.errors) { throw new Error(json.errors.map(e => e.message).join(', ')); }
    return json.data;
  }
  \<close>
  An asynchronous function gives a promise: \<open>Inl\<close> is its rejection (a \<open>throw\<close> in its
  body), \<open>Inr\<close> its value, and the world is the state once it has settled.
\<close>

definition notAuthenticated :: error where
  "notAuthenticated = Error (str ''Not authenticated'')"

text \<open>
  An element of an array as \<open>join\<close> prints it; only strings are printed as they are,
  \<open>null\<close> and \<open>undefined\<close> give the empty string, and the other values, which no
  error message of the platform holds, are printed as a fixed text.
\<close>

fun joinText :: "json \<Rightarrow> jstring" where
  "joinText (JStr s) = s"
| "joinText JNull = []"
| "joinText JUndefined = []"
| "joinText (JBool b) = (if b then str ''true'' else str ''false'')"
| "joinText (JNum n) = (if n < 0 then str ''-'' @ showNat (nat (- n)) else showNat (nat n))"
| "joinText (JArr xs) = str ''[array]''"
| "joinText (JObj kvs) = str ''[object Object]''"

definition graphqlErrors :: "json \<Rightarrow> error" where
  "graphqlErrors errs =
     (case errs of
        JArr es \<Rightarrow>
          (case mapE (\<lambda>e. getProp e (str ''message'')) es of
             Inl e \<Rightarrow> e
           | Inr ms \<Rightarrow> Error (joinWith (str '', '') (map joinText ms)))
      | _ \<Rightarrow> typeError)"

definition graphqlResult :: "json \<Rightarrow> error + json" where
  "graphqlResult j =
     bindE (getProp j (str ''errors''))
       (\<lambda>errs. if truthy errs then Inl (graphqlErrors errs) else getProp j (str ''data''))"

definition graphql :: "network \<Rightarrow> jstring \<Rightarrow> json \<Rightarrow> world \<Rightarrow> (error + json) \<times> world" where
  "graphql net query variables w =
     (if noToken (getToken w) then (Inl notAuthenticated, w)
      else
        (case fetch net
                \<lparr>req_url = str ''https://api.github.com/graphql'', req_method = str ''POST'',
                 req_authorization = Some (str ''bearer '' @ the (getToken w)),
                 req_body = JObj [(str ''query'', JStr query), (str ''variables'', variables)]\<rparr> w of
           (Inl e, w1) \<Rightarrow> (Inl e, w1)
         | (Inr resp, w1) \<Rightarrow>
             if \<not> ok resp
             then (Inl (Error (str ''GraphQL request failed: '' @ showNat (status resp))), w1)
             else (case jsonBody resp of
                     Inl e \<Rightarrow> (Inl e, w1)
                   | Inr j \<Rightarrow> (graphqlResult j, w1))))"

text \<open>
  The query documents are fixed texts that the client does not interpret; each is named
  here by the field it calls.
\<close>

definition repositoryQuery :: jstring where "repositoryQuery = str ''repository''"
definition addReactionQuery :: jstring where "addReactionQuery = str ''addReaction''"
definition removeReactionQuery :: jstring where "removeReactionQuery = str ''removeReaction''"
definition updateCommentQuery :: jstring where "updateCommentQuery = str ''updateDiscussionComment''"
definition deleteCommentQuery :: jstring where "deleteCommentQuery = str ''deleteDiscussionComment''"
definition createDiscussionQuery :: jstring where "createDiscussionQuery = str ''createDiscussion''"
definition addReplyQuery :: jstring where "addReplyQuery = str ''addDiscussionComment''"

text \<open>
  \<^verbatim>\<open>
  async fetchRepoId() {
    if (this._repoInfo) return this._repoInfo;
    ...
    const data = await this.graphql(query, { owner, repo });
    this._repoInfo = {
      repoId: data.repository.id,
      categories: data.repository.discussionCategories.nodes
    };
    return this._repoInfo;
  }
  \<close>
\<close>

definition repoInfoOf :: "json \<Rightarrow> error + obj" where
  "repoInfoOf dat =
     bindE (getProp dat (str ''repository'')) (\<lambda>r1.
     bindE (getProp r1 (str ''id'')) (\<lambda>rid.
     bindE (getProp dat (str ''repository'')) (\<lambda>r2.
     bindE (getProp r2 (str ''discussionCategories'')) (\<lambda>dc.
     bindE (getProp dc (str ''nodes'')) (\<lambda>nodes.
     Inr [(str ''repoId'', rid), (str ''categories'', nodes)])))))"

definition fetchRepoId :: "network \<Rightarrow> world \<Rightarrow> (error + json) \<times> world" where
  "fetchRepoId net w =
     (case repoInfo w of
        Some info \<Rightarrow> (Inr (JObj info), w)
      | None \<Rightarrow>
          (case graphql net repositoryQuery
                  (JObj [(str ''owner'', JStr (OWNER w)), (str ''repo'', JStr (REPO w))]) w of
             (Inl e, w1) \<Rightarrow> (Inl e, w1)
           | (Inr dat, w1) \<Rightarrow>
               (case repoInfoOf dat of
                  Inl e \<Rightarrow> (Inl e, w1)
                | Inr info \<Rightarrow> (Inr (JObj info), w1\<lparr>repoInfo := Some info\<rparr>))))"

text \<open>
  \<^verbatim>\<open>
  async addReaction(subjectId, content) { ... return this.graphql(query, { subjectId, content }); }
  async removeReaction(subjectId, content) { ... return this.graphql(query, { subjectId, content }); }
  async updateComment(commentNodeId, body) { ... return this.graphql(query, { commentId: commentNodeId, body }); }
  async deleteComment(commentNodeId) { ... return this.graphql(query, { commentId: commentNodeId }); }
  \<close>
\<close>

definition addReaction :: "network \<Rightarrow> json \<Rightarrow> json \<Rightarrow> world \<Rightarrow> (error + json) \<times> world" where
  "addReaction net subjectId content w =
     graphql net addReactionQuery (JObj [(str ''subjectId'', subjectId), (str ''content'', content)]) w"

definition removeReaction :: "network \<Rightarrow> json \<Rightarrow> json \<Rightarrow> world \<Rightarrow> (error + json) \<times> world" where
  "removeReaction net subjectId content w =
     graphql net removeReactionQuery (JObj [(str ''subjectId'', subjectId), (str ''content'', content)]) w"

definition updateComment :: "network \<Rightarrow> json \<Rightarrow> json \<Rightarrow> world \<Rightarrow> (error + json) \<times> world" where
  "updateComment net commentNodeId body w =
     graphql net updateCommentQuery (JObj [(str ''commentId'', commentNodeId), (str ''body'', body)]) w"

definition deleteComment :: "network \<Rightarrow> json \<Rightarrow> world \<Rightarrow> (error + json) \<times> world" where
  "deleteComment net commentNodeId w =
     graphql net deleteCommentQuery (JObj [(str ''commentId'', commentNodeId)]) w"

text \<open>
  \<^verbatim>\<open>
  async createDiscussion(categoryId, title, body) {
    const info = await this.fetchRepoId();
    ...
    const data = await this.graphql(query, { repoId: info.repoId, categoryId, title, body });
    return data.createDiscussion.discussion;
  }
  \<close>
\<close>

definition createDiscussion ::
  "network \<Rightarrow> json \<Rightarrow> json \<Rightarrow> json \<Rightarrow> world \<Rightarrow> (error + json) \<times> world" where
  "createDiscussion net categoryId title body w =
     (case fetchRepoId net w of
        (Inl e, w1) \<Rightarrow> (Inl e, w1)
      | (Inr info, w1) \<Rightarrow>
          (case getProp info (str ''repoId'') of
             Inl e \<Rightarrow> (Inl e, w1)
           | Inr rid \<Rightarrow>
               (case graphql net createDiscussionQuery
                       (JObj [(str ''repoId'', rid), (str ''categoryId'', categoryId),
                              (str ''title'', title), (str ''body'', body)]) w1 of
                  (Inl e, w2) \<Rightarrow> (Inl e, w2)
                | (Inr dat, w2) \<Rightarrow>
                    (bindE (getProp dat (str ''createDiscussion''))
                       (\<lambda>c. getProp c (str ''discussion'')), w2))))"

text \<open>
  \<^verbatim>\<open>
  async postComment(number, body) {
    const token = RB_AUTH.getToken();
    if (!token) { throw new Error('Not authenticated'); }
    ...
    const url = `https://api.github.com/repos/${owner}/${repo}/discussions/${number}/comments`;
    const response = await fetch(url, { method: 'POST', headers: { 'Authorization': `token ${token}`, ... },
      body: JSON.stringify({ body }) });
    if (!response.ok) {
      const error = await response.json().catch(() => ({}));
      throw new Error(error.message || `Failed to post comment: ${response.status}`);
    }
    return await response.json();
  }
  \<close>
\<close>

definition discussionUrl :: "world \<Rightarrow> jstring \<Rightarrow> jstring" where
  "discussionUrl w number =
     str ''https://api.github.com/repos/'' @ OWNER w @ str ''/'' @ REPO w @ str ''/discussions/'' @ number"

definition commentsUrl :: "world \<Rightarrow> jstring \<Rightarrow> jstring" where
  "commentsUrl w number = discussionUrl w number @ str ''/comments''"

definition postCommentFailure :: "response \<Rightarrow> error" where
  "postCommentFailure resp =
     (case getProp (case jsonBody resp of Inl e \<Rightarrow> JObj [] | Inr j \<Rightarrow> j) (str ''message'') of
        Inl e \<Rightarrow> e
      | Inr msg \<Rightarrow>
          Error (if truthy msg then joinText msg
                 else str ''Failed to post comment: '' @ showNat (status resp)))"

definition postComment :: "network \<Rightarrow> jstring \<Rightarrow> json \<Rightarrow> world \<Rightarrow> (error + json) \<times> world" where
  "postComment net number body w =
     (if noToken (getToken w) then (Inl notAuthenticated, w)
      else
        (case fetch net
                \<lparr>req_url = commentsUrl w number, req_method = str ''POST'',
                 req_authorization = Some (str ''token '' @ the (getToken w)),
                 req_body = JObj [(str ''body'', body)]\<rparr> w of
           (Inl e, w1) \<Rightarrow> (Inl e, w1)
         | (Inr resp, w1) \<Rightarrow>
             if \<not> ok resp then (Inl (postCommentFailure resp), w1)
             else (jsonBody resp, w1)))"

section \<open>discussions.js: reading a discussion and its comments\<close>

text \<open>The bylines of a value that may be no string: \<^verbatim>\<open>body.match\<close> and
  \<^verbatim>\<open>body.replace\<close> exist on strings only.\<close>

definition extractAuthorJ :: "json \<Rightarrow> error + json" where
  "extractAuthorJ body =
     (if \<not> truthy body then Inr JNull
      else case body of
             JStr s \<Rightarrow> Inr (case extractAuthor s of None \<Rightarrow> JNull | Some a \<Rightarrow> JStr a)
           | _ \<Rightarrow> Inl typeError)"

definition stripBylineJ :: "json \<Rightarrow> error + json" where
  "stripBylineJ body =
     (if \<not> truthy body then Inr body
      else case body of
             JStr s \<Rightarrow> Inr (JStr (stripByline s))
           | _ \<Rightarrow> Inl typeError)"

text \<open>\<^verbatim>\<open>d.user ? d.user.login : dflt\<close>.\<close>

definition userLogin :: "json \<Rightarrow> json \<Rightarrow> json" where
  "userLogin d dflt =
     (if truthy (propOf d (str ''user'')) then propOf (propOf d (str ''user'')) (str ''login'') else dflt)"

text \<open>\<^verbatim>\<open>d.reactions ? (d.reactions['+1'] || 0) : 0\<close>.\<close>

definition upvotesOf :: "json \<Rightarrow> json" where
  "upvotesOf d =
     (if truthy (propOf d (str ''reactions''))
      then orElse (propOf (propOf d (str ''reactions'')) (str ''+1'')) (JNum 0)
      else JNum 0)"

text \<open>\<^verbatim>\<open>d.category ? d.category.slug : null\<close>.\<close>

definition channelOf :: "json \<Rightarrow> json" where
  "channelOf d =
     (if truthy (propOf d (str ''category'')) then propOf (propOf d (str ''category'')) (str ''slug'')
      else JNull)"

text \<open>
  \<^verbatim>\<open>
  async fetchDiscussion(number) {
    ...
    const url = `https://api.github.com/repos/${owner}/${repo}/discussions/${number}`;
    try {
      const response = await fetch(url, { headers: { 'Accept': 'application/vnd.github+json' } });
      if (!response.ok) return null;
      const d = await response.json();
      const realAuthor = this.extractAuthor(d.body);
      return {
        title: d.title,
        body: this.stripByline(d.body),
        author: realAuthor || (d.user ? d.user.login : 'unknown'),
        authorId: realAuthor || (d.user ? d.user.login : 'unknown'),
        githubAuthor: d.user ? d.user.login : null,
        channel: d.category ? d.category.slug : null,
        timestamp: d.created_at,
        upvotes: d.reactions ? (d.reactions['+1'] || 0) : 0,
        commentCount: d.comments || 0,
        url: d.html_url,
        number: d.number,
        nodeId: d.node_id || null,
        reactions: d.reactions || {}
      };
    } catch (error) {
      console.error('Failed to fetch discussion:', error);
      return null;
    }
  }
  \<close>
  \<open>discussionOf\<close> is the object built from the parsed body; \<open>fetchDiscussionTry\<close> is the
  \<open>try\<close> block from the settled \<open>fetch\<close> on.
\<close>

definition discussionOf :: "json \<Rightarrow> error + json" where
  "discussionOf d =
     bindE (getProp d (str ''body'')) (\<lambda>b.
     bindE (extractAuthorJ b) (\<lambda>realAuthor.
     bindE (stripBylineJ b) (\<lambda>stripped.
     Inr (JObj
       [(str ''title'', propOf d (str ''title'')),
        (str ''body'', stripped),
        (str ''author'', orElse realAuthor (userLogin d (JStr (str ''unknown'')))),
        (str ''authorId'', orElse realAuthor (userLogin d (JStr (str ''unknown'')))),
        (str ''githubAuthor'', userLogin d JNull),
        (str ''channel'', channelOf d),
        (str ''timestamp'', propOf d (str ''created_at'')),
        (str ''upvotes'', upvotesOf d),
        (str ''commentCount'', orElse (propOf d (str ''comments'')) (JNum 0)),
        (str ''url'', propOf d (str ''html_url'')),
        (str ''number'', propOf d (str ''number'')),
        (str ''nodeId'', orElse (propOf d (str ''node_id'')) JNull),
        (str ''reactions'', orElse (propOf d (str ''reactions'')) (JObj []))]))))"

definition getRequest :: "jstring \<Rightarrow> request" where
  "getRequest u = \<lparr>req_url = u, req_method = str ''GET'', req_authorization = None, req_body = JUndefined\<rparr>"

definition fetchDiscussionTry :: "error + response \<Rightarrow> error + json" where
  "fetchDiscussionTry fetched =
     bindE fetched (\<lambda>resp.
       if \<not> ok resp then Inr JNull
       else bindE (jsonBody resp) discussionOf)"

definition fetchDiscussion :: "network \<Rightarrow> jstring \<Rightarrow> world \<Rightarrow> (error + json) \<times> world" where
  "fetchDiscussion net number w =
     (case fetch net (getRequest (discussionUrl w number)) w of
        (fetched, w1) \<Rightarrow>
          (case fetchDiscussionTry fetched of
             Inl e \<Rightarrow> (Inr JNull, w1)
           | Inr d \<Rightarrow> (Inr d, w1)))"

text \<open>
  \<^verbatim>\<open>
  async fetchComments(number) {
    ...
    const url = `https://api.github.com/repos/${owner}/${repo}/discussions/${number}/comments`;
    try {
      const response = await fetch(url, { headers: { 'Accept': 'application/vnd.github+json' } });
      if (!response.ok) return [];
      const comments = await response.json();
      return comments.map(c => {
        const realAuthor = this.extractAuthor(c.body);
        return {
          id: c.id || null,
          parentId: c.parent_id || null,
          author: realAuthor || (c.user ? c.user.login : 'unknown'),
          authorId: realAuthor || (c.user ? c.user.login : 'unknown'),
          githubAuthor: c.user ? c.user.login : null,
          body: this.stripByline(c.body),
          timestamp: c.created_at,
          nodeId: c.node_id || null,
          reactions: c.reactions || {},
          rawBody: c.body || ''
        };
      });
    } catch (error) {
      console.warn('Failed to fetch comments:', error);
      return [];
    }
  }
  \<close>
\<close>

definition commentOf :: "json \<Rightarrow> error + json" where
  "commentOf c =
     bindE (getProp c (str ''body'')) (\<lambda>b.
     bindE (extractAuthorJ b) (\<lambda>realAuthor.
     bindE (stripBylineJ b) (\<lambda>stripped.
     Inr (JObj
       [(str ''id'', orElse (propOf c (str ''id'')) JNull),
        (str ''parentId'', orElse (propOf c (str ''parent_id'')) JNull),
        (str ''author'', orElse realAuthor (userLogin c (JStr (str ''unknown'')))),
        (str ''authorId'', orElse realAuthor (userLogin c (JStr (str ''unknown'')))),
        (str ''githubAuthor'', userLogin c JNull),
        (str ''body'', stripped),
        (str ''timestamp'', propOf c (str ''created_at'')),
        (str ''nodeId'', orElse (propOf c (str ''node_id'')) JNull),
        (str ''reactions'', orElse (propOf c (str ''reactions'')) (JObj [])),
        (str ''rawBody'', orElse b (JStr []))]))))"

text \<open>\<^verbatim>\<open>xs.map(f)\<close> on a value that may be no array.\<close>

definition mapArray :: "(json \<Rightarrow> error + json) \<Rightarrow> json \<Rightarrow> error + json" where
  "mapArray f j =
     (case j of
        JArr xs \<Rightarrow> bindE (mapE f xs) (\<lambda>ys. Inr (JArr ys))
      | _ \<Rightarrow> Inl typeError)"

definition fetchCommentsTry :: "error + response \<Rightarrow> error + json" where
  "fetchCommentsTry fetched =
     bindE fetched (\<lambda>resp.
       if \<not> ok resp then Inr (JArr [])
       else bindE (jsonBody resp) (mapArray commentOf))"

definition fetchComments :: "network \<Rightarrow> jstring \<Rightarrow> world \<Rightarrow> (error + json) \<times> world" where
  "fetchComments net number w =
     (case fetch net (getRequest (commentsUrl w number)) w of
        (fetched, w1) \<Rightarrow>
          (case fetchCommentsTry fetched of
             Inl e \<Rightarrow> (Inr (JArr []), w1)
           | Inr cs \<Rightarrow> (Inr cs, w1)))"

text \<open>
  \<^verbatim>\<open>
  async postReply(discussionNumber, body, parentCommentId) {
    const token = RB_AUTH.getToken();
    if (!token) throw new Error('Not authenticated');
    ...
    const discussion = await this.fetchDiscussion(discussionNumber);
    if (!discussion || !discussion.nodeId) throw new Error('Discussion not found');
    return this.graphql(query, { discussionId: discussion.nodeId, body, replyToId: parentCommentId });
  }
  \<close>
\<close>

definition postReply ::
  "network \<Rightarrow> jstring \<Rightarrow> json \<Rightarrow> json \<Rightarrow> world \<Rightarrow> (error + json) \<times> world" where
  "postReply net discussionNumber body parentCommentId w =
     (if noToken (getToken w) then (Inl notAuthenticated, w)
      else
        (case fetchDiscussion net discussionNumber w of
           (Inl e, w1) \<Rightarrow> (Inl e, w1)
         | (Inr discussion, w1) \<Rightarrow>
             if \<not> truthy discussion \<or> \<not> truthy (propOf discussion (str ''nodeId''))
             then (Inl (Error (str ''Discussion not found'')), w1)
             else graphql net addReplyQuery
                    (JObj [(str ''discussionId'', propOf discussion (str ''nodeId'')),
                           (str ''body'', body), (str ''replyToId'', parentCommentId)]) w1))"

section \<open>state.js and discussions.js: the feed\<close>













section \<open>render.js: the error view and the comment tree\<close>

text \<open>
  \<^verbatim>\<open>
  renderError(message, detail = '') {
    return `
      <div class="error-message">
        <div class="error-title">Error</div>
        <div class="error-detail">${message}${detail ? `<br><br>${detail}` : ''}</div>
      </div>
    `;
  }
  \<close>
\<close>

definition renderError :: "jstring \<Rightarrow> jstring \<Rightarrow> jstring" where
  "renderError message detail =
     nl @ str ''      <div class=\"error-message\">'' @ nl
     @ str ''        <div class=\"error-title\">Error</div>'' @ nl
     @ str ''        <div class=\"error-detail\">'' @ message
     @ (if detail \<noteq> [] then str ''<br><br>'' @ detail else []) @ str ''</div>'' @ nl
     @ str ''      </div>'' @ nl
     @ str ''    ''"

text \<open>
  \<^verbatim>\<open>
  renderCommentTree(comments, currentUser, isAuth) {
    const byId = new Map();
    const roots = [];
    for (const c of comments) {
      c.replies = [];
      if (c.id) byId.set(c.id, c);
    }
    for (const c of comments) {
      if (c.parentId && byId.has(c.parentId)) {
        byId.get(c.parentId).replies.push(c);
      } else {
        roots.push(c);
      }
    }
    return roots.map(c => this.renderSingleComment(c, currentUser, isAuth, 0)).join('');
  }
  \<close>
  The comments are objects that the two loops share with the map \<open>byId\<close> and with each
  other's \<open>replies\<close> arrays, so a comment is named by its position in \<open>comments\<close>:
  \<open>byId\<close> maps an id to a position, \<open>roots\<close> is a list of positions and the \<open>replies\<close>
  arrays are a store from positions to lists of positions. A \<open>Map\<close> compares keys that
  are numbers, strings or booleans by value; an id that is itself an object or array is
  found by no other value, so it gets no entry. \<open>commentForest\<close> is the state after both
  loops; the HTML that \<open>renderSingleComment\<close> makes of it is not modelled.
\<close>

fun primitive :: "json \<Rightarrow> bool" where
  "primitive (JArr xs) = False"
| "primitive (JObj kvs) = False"
| "primitive _ = True"

fun indexById :: "nat \<Rightarrow> obj list \<Rightarrow> (json \<rightharpoonup> nat) \<Rightarrow> (json \<rightharpoonup> nat)" where
  "indexById i [] byId = byId"
| "indexById i (c # cs) byId =
     indexById (Suc i) cs
       (if truthy (objProp c (str ''id'')) \<and> primitive (objProp c (str ''id''))
        then byId(objProp c (str ''id'') \<mapsto> i) else byId)"

fun attach ::
  "(json \<rightharpoonup> nat) \<Rightarrow> nat \<Rightarrow> obj list \<Rightarrow> nat list \<times> (nat \<Rightarrow> nat list) \<Rightarrow> nat list \<times> (nat \<Rightarrow> nat list)" where
  "attach byId i [] (roots, replies) = (roots, replies)"
| "attach byId i (c # cs) (roots, replies) =
     attach byId (Suc i) cs
       (if truthy (objProp c (str ''parentId'')) \<and> byId (objProp c (str ''parentId'')) \<noteq> None
        then (roots, replies(the (byId (objProp c (str ''parentId''))) :=
                               replies (the (byId (objProp c (str ''parentId'')))) @ [i]))
        else (roots @ [i], replies))"

definition commentForest :: "obj list \<Rightarrow> nat list \<times> (nat \<Rightarrow> nat list)" where
  "commentForest comments = attach (indexById 0 comments Map.empty) 0 comments ([], \<lambda>i. [])"

text \<open>The comments with no parent comment in the list, those that a comment has under it.\<close>

definition roots :: "obj list \<Rightarrow> nat list" where
  "roots comments = fst (commentForest comments)"

definition replies :: "obj list \<Rightarrow> nat \<Rightarrow> nat list" where
  "replies comments i = snd (commentForest comments) i"

section \<open>router.js: routes\<close>

text \<open>
  The table \<open>routes\<close> of the source, in the order of its declaration
  (\<open>Object.entries\<close> lists string keys in insertion order).
\<close>

definition routes :: "(jstring \<times> jstring) list" where
  "routes =
     [(str ''/'', str ''handleHome''),
      (str ''/channels'', str ''handleChannels''),
      (str ''/channels/:slug'', str ''handleChannel''),
      (str ''/agents'', str ''handleAgents''),
      (str ''/agents/:id/soul'', str ''handleSoul''),
      (str ''/agents/:id'', str ''handleAgent''),
      (str ''/trending'', str ''handleTrending''),
      (str ''/explore'', str ''handleExplore''),
      (str ''/discussions/:number'', str ''handleDiscussion''),
      (str ''/ghosts'', str ''handleGhosts''),
      (str ''/summons'', str ''handleSummons''),
      (str ''/pulse'', str ''handlePulse''),
      (str ''/leaderboard'', str ''handleLeaderboard''),
      (str ''/arena'', str ''handleArena''),
      (str ''/vault'', str ''handleVault''),
      (str ''/predictions'', str ''handlePredictions''),
      (str ''/explorer'', str ''handleExplorer''),
      (str ''/pokes'', str ''handlePokes''),
      (str ''/vitals'', str ''handleVitals''),
      (str ''/cipher'', str ''handleCipher''),
      (str ''/heatmap'', str ''handleHeatmap''),
      (str ''/forge'', str ''handleForge''),
      (str ''/terminal'', str ''handleTerminal''),
      (str ''/radar'', str ''handleRadar''),
      (str ''/heartbeat'', str ''handleHeartbeat''),
      (str ''/orbit'', str ''handleOrbit''),
      (str ''/constellation'', str ''handleConstellation''),
      (str ''/tarot'', str ''handleTarot''),
      (str ''/whispers'', str ''handleWhispers''),
      (str ''/seance'', str ''handleSeance''),
      (str ''/matrix'', str ''handleMatrix''),
      (str ''/elements'', str ''handleElements''),
      (str ''/aquarium'', str ''handleAquarium''),
      (str ''/dna'', str ''handleDna''),
      (str ''/ouija'', str ''handleOuija''),
      (str ''/blackhole'', str ''handleBlackhole''),
      (str ''/synth'', str ''handleSynth''),
      (str ''/typewriter'', str ''handleTypewriter''),
      (str ''/glitch'', str ''handleGlitch''),
      (str ''/warmap'', str ''handleWarmap''),
      (str ''/compose'', str ''handleCompose''),
      (str ''/me'', str ''handleMe''),
      (str ''/search/:query'', str ''handleSearch''),
      (str ''/search'', str ''handleSearch''),
      (str ''/notifications'', str ''handleNotifications'')]"

text \<open>
  \<^verbatim>\<open>
  matchRoute(hash) {
    for (const [pattern, handler] of Object.entries(this.routes)) {
      const regex = new RegExp('^' + pattern.replace(/:[^/]+/g, '([^/]+)') + '$');
      const match = hash.match(regex);
      if (match) {
        const paramNames = (pattern.match(/:[^/]+/g) || []).map(p => p.slice(1));
        const params = {};
        paramNames.forEach((name, i) => { params[name] = match[i + 1]; });
        return { handler, params };
      }
    }
    return null;
  }
  \<close>
  \<open>paramRx\<close> is \<^verbatim>\<open>/:[^/]+/\<close>. \<open>compileRoute\<close> is the regular expression that
  \<open>new RegExp\<close> makes of the pattern after the replacement: every match of
  \<open>paramRx\<close> has become the next capturing group \<^verbatim>\<open>([^/]+)\<close>, every other character
  of the pattern stands for itself. That is what \<open>new RegExp\<close> does for a pattern whose
  other characters are letters, digits, \<^verbatim>\<open>/\<close>, \<^verbatim>\<open>:\<close>, \<^verbatim>\<open>-\<close> or \<^verbatim>\<open>_\<close>
  (\<open>plainPattern\<close>), as all patterns of \<open>routes\<close> are.
\<close>

definition paramRx :: rx where
  "paramRx = seqs [Lit (str '':''), Rep True 1 None (Cls (CNotIn (str ''/'')))]"

function compileRoute :: "nat \<Rightarrow> jstring \<Rightarrow> jstring \<Rightarrow> rx list" where
  "compileRoute i bef s =
     (case exec False paramRx bef s of
        None \<Rightarrow> (case s of [] \<Rightarrow> [] | x # xs \<Rightarrow> Lit [x] # compileRoute i (x # bef) xs)
      | Some st' \<Rightarrow>
          (if length s - length (rest st') = 0
           then Grp i (Rep True 1 None (Cls (CNotIn (str ''/''))))
                # (case s of [] \<Rightarrow> [] | x # xs \<Rightarrow> Lit [x] # compileRoute (Suc i) (x # bef) xs)
           else Grp i (Rep True 1 None (Cls (CNotIn (str ''/''))))
                # compileRoute (Suc i) (rev (take (length s - length (rest st')) s) @ bef)
                    (drop (length s - length (rest st')) s)))"
  by pat_completeness auto
termination
  by (relation "measure (\<lambda>(i, bef, s). length s)") auto

declare compileRoute.simps [simp del]

definition routeRx :: "jstring \<Rightarrow> rx" where
  "routeRx pattern = seqs ([Bol] @ compileRoute 1 [] pattern @ [Eol])"

definition plainChar :: "nat \<Rightarrow> bool" where
  "plainChar c \<longleftrightarrow> isWordChar c \<or> c = 47 \<or> c = 58 \<or> c = 45"

definition plainPattern :: "jstring \<Rightarrow> bool" where
  "plainPattern pattern \<longleftrightarrow> list_all plainChar pattern"

text \<open>\<^verbatim>\<open>s.match(/r/g)\<close>: all matches, from left to right.\<close>

function matchAll :: "bool \<Rightarrow> rx \<Rightarrow> jstring \<Rightarrow> jstring \<Rightarrow> jstring list" where
  "matchAll ml r bef s =
     (case exec ml r bef s of
        None \<Rightarrow> (case s of [] \<Rightarrow> [] | x # xs \<Rightarrow> matchAll ml r (x # bef) xs)
      | Some st' \<Rightarrow>
          (if length s - length (rest st') = 0
           then [] # (case s of [] \<Rightarrow> [] | x # xs \<Rightarrow> matchAll ml r (x # bef) xs)
           else take (length s - length (rest st')) s
                # matchAll ml r (rev (take (length s - length (rest st')) s) @ bef)
                    (drop (length s - length (rest st')) s)))"
  by pat_completeness auto
termination
  by (relation "measure (\<lambda>(ml, r, bef, s). length s)") auto

declare matchAll.simps [simp del]

definition paramNames :: "jstring \<Rightarrow> jstring list" where
  "paramNames pattern = map (drop 1) (matchAll False paramRx [] pattern)"

text \<open>\<open>params[name] = match[i + 1]\<close>, for the names from position \<open>i\<close> on.\<close>

fun bindParams :: "mstate \<Rightarrow> nat \<Rightarrow> jstring list \<Rightarrow> (jstring \<rightharpoonup> jstring) \<Rightarrow> (jstring \<rightharpoonup> jstring)" where
  "bindParams st i [] params = params"
| "bindParams st i (name # names) params =
     bindParams st (Suc i) names (params(name \<mapsto> grp st (i + 1)))"

fun matchRouteIn ::
  "(jstring \<times> jstring) list \<Rightarrow> jstring \<Rightarrow> (jstring \<times> (jstring \<rightharpoonup> jstring)) option" where
  "matchRouteIn [] hash = None"
| "matchRouteIn ((pattern, handler) # rs) hash =
     (case rxSearch False (routeRx pattern) [] hash of
        Some st \<Rightarrow> Some (handler, bindParams st 0 (paramNames pattern) Map.empty)
      | None \<Rightarrow> matchRouteIn rs hash)"

definition matchRoute :: "jstring \<Rightarrow> (jstring \<times> (jstring \<rightharpoonup> jstring)) option" where
  "matchRoute hash = matchRouteIn routes hash"

text \<open>
  What the specification says of \<open>resolve\<close>, in its own terms. A pattern and a token are
  split into their components at the slashes. A component of the pattern that is a colon
  and a name matches any one component that is not empty, and binds it to the name; any
  other component matches itself only. The pattern matches when it has as many
  components as the token and each matches.
\<close>

definition components :: "jstring \<Rightarrow> jstring list" where
  "components s = splitChar 47 [] s"

definition isParam :: "jstring \<Rightarrow> bool" where
  "isParam c \<longleftrightarrow> 2 \<le> length c \<and> hd c = 58"

definition segmentMatches :: "jstring \<Rightarrow> jstring \<Rightarrow> bool" where
  "segmentMatches pc tc = (if isParam pc then tc \<noteq> [] else tc = pc)"

definition pathMatches :: "jstring \<Rightarrow> jstring \<Rightarrow> bool" where
  "pathMatches pattern tok = list_all2 segmentMatches (components pattern) (components tok)"

fun bindSegments :: "jstring list \<Rightarrow> jstring list \<Rightarrow> (jstring \<rightharpoonup> jstring) \<Rightarrow> (jstring \<rightharpoonup> jstring)" where
  "bindSegments (pc # pcs) (tc # tcs) params =
     bindSegments pcs tcs (if isParam pc then params(drop 1 pc \<mapsto> tc) else params)"
| "bindSegments pcs tcs params = params"

definition pathParams :: "jstring \<Rightarrow> jstring \<Rightarrow> (jstring \<rightharpoonup> jstring)" where
  "pathParams pattern tok = bindSegments (components pattern) (components tok) Map.empty"

text \<open>
  The patterns this reading covers: every component is a parameter or holds no colon, and
  every character is plain.
\<close>

definition wellFormed :: "jstring \<Rightarrow> bool" where
  "wellFormed pattern \<longleftrightarrow>
     plainPattern pattern \<and> list_all (\<lambda>c. isParam c \<or> 58 \<notin> set c) (components pattern)"

fun resolveSpec ::
  "(jstring \<times> jstring) list \<Rightarrow> jstring \<Rightarrow> (jstring \<times> (jstring \<rightharpoonup> jstring)) option" where
  "resolveSpec [] tok = None"
| "resolveSpec ((pattern, handler) # rs) tok =
     (if pathMatches pattern tok then Some (handler, pathParams pattern tok)
      else resolveSpec rs tok)"

section \<open>router.js: the discussion page, the home page and the vote button\<close>

text \<open>
  \<^verbatim>\<open>
  async handleDiscussion(params) {
    const app = document.getElementById('app');
    try {
      const [discussion, comments] = await Promise.all([
        RB_DISCUSSIONS.fetchDiscussion(params.number),
        RB_DISCUSSIONS.fetchComments(params.number)
      ]);
      if (!discussion) {
        app.innerHTML = RB_RENDER.renderError('Discussion not found');
        return;
      }
      app.innerHTML = RB_RENDER.renderDiscussionDetail(discussion, comments);
      // Wire up interactive handlers
      this.attachCommentHandler(params.number);
      ...
    } catch (error) {
      app.innerHTML = RB_RENDER.renderError('Failed to load discussion', error.message);
    }
  }
  \<close>
  Both calls in the array run up to their \<open>fetch\<close> before \<open>Promise.all\<close> waits, so both
  requests are issued, the one for the discussion first. The HTML of the detail view is
  the parameter \<open>renderDetail\<close> (\<open>RB_RENDER.renderDiscussionDetail\<close>, \<open>Inl\<close> when it throws).
\<close>

definition errorMessage :: "error \<Rightarrow> jstring" where
  "errorMessage e = (case e of Error msg \<Rightarrow> msg)"

definition handleDiscussion ::
  "network \<Rightarrow> (json \<Rightarrow> json \<Rightarrow> error + jstring) \<Rightarrow> jstring \<Rightarrow> world \<Rightarrow> world" where
  "handleDiscussion net renderDetail number w =
     (case fetchDiscussion net number w of
        (rd, w1) \<Rightarrow>
          (case fetchComments net number w1 of
             (rc, w2) \<Rightarrow>
               (case bindE rd (\<lambda>discussion. bindE rc (\<lambda>comments.
                       if \<not> truthy discussion
                       then Inr (w2\<lparr>app := renderError (str ''Discussion not found'') []\<rparr>)
                       else bindE (renderDetail discussion comments)
                              (\<lambda>html. Inr (w2\<lparr>app := html, wired := wired w2 @ [number]\<rparr>)))) of
                  Inl e \<Rightarrow> w2\<lparr>app := renderError (str ''Failed to load discussion'') (errorMessage e)\<rparr>
                | Inr w3 \<Rightarrow> w3)))"


text \<open>
  The listener that \<open>attachVoteHandlers\<close> puts on \<open>#app\<close>:
  \<^verbatim>\<open>
  async (e) => {
    const btn = e.target.closest('.vote-btn');
    if (!btn) return;
    if (!RB_AUTH.isAuthenticated()) { RB_AUTH.login(); return; }
    const nodeId = btn.dataset.nodeId;
    if (!nodeId) return;
    btn.disabled = true;
    btn.classList.add('btn-loading');
    const countEl = btn.querySelector('.vote-count');
    const currentCount = parseInt(countEl ? countEl.textContent : '0', 10);
    try {
      if (btn.classList.contains('vote-btn--voted')) {
        await RB_DISCUSSIONS.removeReaction(nodeId, 'THUMBS_UP');
        btn.classList.remove('vote-btn--voted');
        if (countEl) countEl.textContent = Math.max(0, currentCount - 1);
      } else {
        await RB_DISCUSSIONS.addReaction(nodeId, 'THUMBS_UP');
        btn.classList.add('vote-btn--voted');
        if (countEl) countEl.textContent = currentCount + 1;
      }
    } catch (error) { console.error('Vote failed:', error); }
    btn.disabled = false;
    btn.classList.remove('btn-loading');
  }
  \<close>
  The clicked vote button, if the click was on one, is a record: its \<open>data-node-id\<close>
  (empty when absent), whether it has the class \<open>vote-btn--voted\<close>, and the number its
  count element shows (\<open>None\<close> when it has no count element), an integer of absolute
  value at most \<open>2^53\<close>. The source computes with double-precision numbers: on these
  integers \<^verbatim>\<open>currentCount - 1\<close> is exact wherever \<open>Math.max\<close> does not hide it, and
  \<^verbatim>\<open>currentCount + 1\<close> is exact except that \<open>2^53 + 1\<close> is \<open>2^53\<close> (\<open>addOne\<close>).
\<close>

definition addOne :: "int \<Rightarrow> int" where
  "addOne n = (if 9007199254740992 \<le> n then n else n + 1)"

record voteButton =
  btn_nodeId :: jstring
  btn_voted :: bool
  btn_count :: "int option"

definition voteClick :: "network \<Rightarrow> voteButton option \<Rightarrow> world \<Rightarrow> voteButton option \<times> world" where
  "voteClick net target w =
     (case target of
        None \<Rightarrow> (None, w)
      | Some btn \<Rightarrow>
          if \<not> isAuthenticated w then (Some btn, login w)
          else if btn_nodeId btn = [] then (Some btn, w)
          else if btn_voted btn then
            (case removeReaction net (JStr (btn_nodeId btn)) (JStr (str ''THUMBS_UP'')) w of
               (Inl e, w1) \<Rightarrow> (Some btn, w1)
             | (Inr r, w1) \<Rightarrow>
                 (Some (btn\<lparr>btn_voted := False,
                            btn_count := map_option (\<lambda>n. max 0 (n - 1)) (btn_count btn)\<rparr>), w1))
          else
            (case addReaction net (JStr (btn_nodeId btn)) (JStr (str ''THUMBS_UP'')) w of
               (Inl e, w1) \<Rightarrow> (Some btn, w1)
             | (Inr r, w1) \<Rightarrow>
                 (Some (btn\<lparr>btn_voted := True,
                            btn_count := map_option addOne (btn_count btn)\<rparr>), w1)))"

text \<open>
  A parent id that is absent, or that no comment of the list has as its id.
\<close>

definition notPresent :: "obj list \<Rightarrow> json \<Rightarrow> bool" where
  "notPresent cs p \<longleftrightarrow> \<not> truthy p \<or> (\<forall>x\<in>set cs. objProp x (str ''id'') \<noteq> p)"

text \<open>The position that the second loop finds for the parent of a comment, if any.\<close>

definition parentIn :: "(json \<rightharpoonup> nat) \<Rightarrow> obj \<Rightarrow> nat option" where
  "parentIn byId c =
     (if truthy (objProp c (str ''parentId'')) \<and> byId (objProp c (str ''parentId'')) \<noteq> None
      then byId (objProp c (str ''parentId'')) else None)"


section \<open>Example states\<close>

text \<open>
  The page of the default repository just after loading, with nobody logged in and
  nothing requested yet, and a network that answers every request with one status and
  one body.
\<close>

definition freshWorld :: world where
  "freshWorld =
     \<lparr>OWNER = str ''kody-w'', REPO = str ''rappterbook-vm'', BRANCH = str ''main'', token = None,
      repoInfo = None, requests = [], location = None, redirectUri = [], app = [], feed = [],
      loadMoreButton = False, homePostsLoaded = 0, wired = []\<rparr>"

definition answering :: "nat \<Rightarrow> json \<Rightarrow> network" where
  "answering code j = (\<lambda>issued req. Inr \<lparr>status = code, statusText = [], jsonBody = Inr j\<rparr>)"




text \<open>
  Comments as \<open>fetchComments\<close> builds them, reduced to the two properties that the tree
  reads.
\<close>

definition mkComment :: "json \<Rightarrow> json \<Rightarrow> obj" where
  "mkComment i p = [(str ''id'', i), (str ''parentId'', p)]"

(*PROPS*)
section \<open>Properties of the fetch cache\<close>





section \<open>Properties of the markdown renderer\<close>

text \<open>
  The rules that evaluate the matcher and the renderer on a concrete text. They are used
  with weak congruence rules for \<open>case\<close>, so that a branch is only entered once the
  value it depends on is known.
\<close>

lemmas rx_eval =
  str_def nl_def exec_def grp_def constRepl_def matcher.simps
  isLineTerminator_def isWhiteSpace_def isWordChar_def
  replaceAll.simps replaceAllSt.simps splitLoop.simps showNat.simps
  splitRx_def rxTest_def trim_def


subsection \<open>Escaping\<close>















subsection \<open>The patterns of the renderer\<close>









subsection \<open>Text without markdown markup\<close>


































subsection \<open>Placeholders in a text\<close>




































lemma occurs_tl: "\<not> occurs pat (x # xs) \<Longrightarrow> \<not> occurs pat xs"
  by simp




subsection \<open>Extraction\<close>
































subsection \<open>The escaped text in the output\<close>




subsection \<open>Fenced code blocks\<close>





section \<open>Properties of the bylines\<close>

lemmas byline_eval =
  postBylineRx_def commentBylineRx_def extractAuthor_def stripPostRx_def stripCommentRx_def
  stripByline_def

text \<open>
  C7. A body that starts with the post byline and a separator gives the author and is
  stripped of both. But a body whose first line is no byline and whose second line is one
  still gives an author, and is returned as it is: the extraction looks at every line
  (flag \<open>m\<close>), the stripping only at the start of the body.
\<close>

theorem extractAuthor_later_line:
  "extractAuthor (str ''*Posted by **Example Agent***'' @ nl @ str ''---'' @ nl @ str ''Hello'')
     = Some (str ''Example Agent'')
   \<and> stripByline (str ''*Posted by **Example Agent***'' @ nl @ str ''---'' @ nl @ str ''Hello'')
     = str ''Hello''
   \<and> extractAuthor (str ''Hello'' @ nl @ str ''*Posted by **Mallory***'') = Some (str ''Mallory'')
   \<and> stripByline (str ''Hello'' @ nl @ str ''*Posted by **Mallory***'')
     = str ''Hello'' @ nl @ str ''*Posted by **Mallory***''"
  by (simp add: rx_eval byline_eval
           cong: option.case_cong_weak list.case_cong_weak prod.case_cong_weak)

section \<open>Properties of the mutations\<close>

lemma graphql_no_token:
  "noToken (getToken w) \<Longrightarrow> graphql net q v w = (Inl notAuthenticated, w)"
  by (simp add: graphql_def)

lemma fetchRepoId_no_token:
  "noToken (getToken w) \<Longrightarrow>
     fetchRepoId net w = (case repoInfo w of Some info \<Rightarrow> (Inr (JObj info), w)
                          | None \<Rightarrow> (Inl notAuthenticated, w))"
  by (simp add: fetchRepoId_def graphql_no_token split: option.splits)

lemma createDiscussion_no_token:
  "noToken (getToken w) \<Longrightarrow> createDiscussion net c t b w = (Inl notAuthenticated, w)"
  by (simp add: createDiscussion_def fetchRepoId_no_token graphql_no_token split: option.splits)

lemma login_requests: "requests (login w) = requests w"
  by (simp add: login_def)

lemma login_location: "location (login w) \<noteq> None"
  by (simp add: login_def CLIENT_ID_def str_def)

text \<open>
  C9. With no token stored (or the empty string), every mutating operation settles as the
  rejection "Not authenticated" and leaves the state as it was: no request has been
  issued. A click on a vote button then runs \<open>login\<close>, which sends the browser to the
  authorisation page and issues no request either.
\<close>

theorem mutations_need_token:
  assumes "noToken (getToken w)"
  shows "addReaction net subjectId content w = (Inl notAuthenticated, w)
       \<and> removeReaction net subjectId content w = (Inl notAuthenticated, w)
       \<and> postComment net number body w = (Inl notAuthenticated, w)
       \<and> updateComment net commentNodeId body w = (Inl notAuthenticated, w)
       \<and> deleteComment net commentNodeId w = (Inl notAuthenticated, w)
       \<and> createDiscussion net categoryId title body w = (Inl notAuthenticated, w)
       \<and> postReply net number body parentCommentId w = (Inl notAuthenticated, w)
       \<and> voteClick net (Some btn) w = (Some btn, login w)
       \<and> requests (login w) = requests w
       \<and> location (login w) \<noteq> None"
  using assms
  by (simp add: addReaction_def removeReaction_def postComment_def updateComment_def
        deleteComment_def createDiscussion_no_token postReply_def voteClick_def
        isAuthenticated_def graphql_no_token login_requests login_location)

theorem mutations_need_token_witness:
  "noToken (getToken freshWorld)
   \<and> addReaction (answering 200 JNull) (JStr (str ''D_1'')) (JStr (str ''THUMBS_UP'')) freshWorld
       = (Inl notAuthenticated, freshWorld)
   \<and> voteClick (answering 200 JNull) (Some \<lparr>btn_nodeId = str ''D_1'', btn_voted = False, btn_count = Some 3\<rparr>)
         freshWorld
       = (Some \<lparr>btn_nodeId = str ''D_1'', btn_voted = False, btn_count = Some 3\<rparr>, login freshWorld)
   \<and> requests (login freshWorld) = []"
proof -
  have n: "noToken (getToken freshWorld)"
    by (simp add: noToken_def getToken_def freshWorld_def)
  show ?thesis
    using mutations_need_token [OF n, of "answering 200 JNull" "JStr (str ''D_1'')"
        "JStr (str ''THUMBS_UP'')" _ _ _ _ _ _
        "\<lparr>btn_nodeId = str ''D_1'', btn_voted = False, btn_count = Some 3\<rparr>"] n
    by (simp add: freshWorld_def)
qed

section \<open>Properties of reading a discussion\<close>

lemma fetch_fields [simp]:
  "OWNER (snd (fetch net req w)) = OWNER w"
  "REPO (snd (fetch net req w)) = REPO w"
  "BRANCH (snd (fetch net req w)) = BRANCH w"
  "requests (snd (fetch net req w)) = requests w @ [req]"
  "app (snd (fetch net req w)) = app w"
  "wired (snd (fetch net req w)) = wired w"
  "token (snd (fetch net req w)) = token w"
  by (simp_all add: fetch_def)

text \<open>
  C10. Whatever the network answers, \<open>fetchDiscussion\<close> and \<open>fetchComments\<close> settle with
  a value, never with a rejection. When the answer has a status outside 200 to 299, or
  when \<open>fetch\<close> itself rejects, the value is \<open>null\<close> for the discussion and the empty
  list for the comments, as for a discussion that does not exist.
\<close>

theorem read_failure_is_not_found:
  "(\<forall>resp. net (requests w) (getRequest (discussionUrl w n)) = Inr resp \<and> \<not> ok resp
       \<longrightarrow> fst (fetchDiscussion net n w) = Inr JNull)
   \<and> (\<forall>resp. net (requests w) (getRequest (commentsUrl w n)) = Inr resp \<and> \<not> ok resp
       \<longrightarrow> fst (fetchComments net n w) = Inr (JArr []))
   \<and> (\<forall>e. net (requests w) (getRequest (discussionUrl w n)) = Inl e
       \<longrightarrow> fst (fetchDiscussion net n w) = Inr JNull)
   \<and> (\<forall>e. net (requests w) (getRequest (commentsUrl w n)) = Inl e
       \<longrightarrow> fst (fetchComments net n w) = Inr (JArr []))
   \<and> (\<exists>d. fst (fetchDiscussion net n w) = Inr d)
   \<and> (\<exists>cs. fst (fetchComments net n w) = Inr cs)"
  by (auto simp: fetchDiscussion_def fetchComments_def fetchDiscussionTry_def fetchCommentsTry_def
        fetch_def bindE_def split: prod.splits sum.splits)

theorem read_failure_is_not_found_witness:
  "answering 500 JNull (requests freshWorld) (getRequest (discussionUrl freshWorld (str ''7'')))
     = Inr \<lparr>status = 500, statusText = [], jsonBody = Inr JNull\<rparr>
   \<and> \<not> ok \<lparr>status = 500, statusText = [], jsonBody = Inr JNull\<rparr>
   \<and> fst (fetchDiscussion (answering 500 JNull) (str ''7'') freshWorld) = Inr JNull
   \<and> fst (fetchComments (answering 500 JNull) (str ''7'') freshWorld) = Inr (JArr [])"
  using read_failure_is_not_found [of "answering 500 JNull" freshWorld "str ''7''"]
  by (simp add: answering_def ok_def)

lemma fetchDiscussion_world:
  "snd (fetchDiscussion net n w) = snd (fetch net (getRequest (discussionUrl w n)) w)"
  by (simp add: fetchDiscussion_def split: prod.splits sum.splits)

lemma fetchComments_world:
  "snd (fetchComments net n w) = snd (fetch net (getRequest (commentsUrl w n)) w)"
  by (simp add: fetchComments_def split: prod.splits sum.splits)

lemma fetchDiscussion_Inr: "\<exists>d. fst (fetchDiscussion net n w) = Inr d"
  by (auto simp: fetchDiscussion_def split: prod.splits sum.splits)

lemma fetchComments_Inr: "\<exists>cs. fst (fetchComments net n w) = Inr cs"
  by (auto simp: fetchComments_def split: prod.splits sum.splits)

lemma urls_after_fetch [simp]:
  "discussionUrl (snd (fetch net req w)) n = discussionUrl w n"
  "commentsUrl (snd (fetch net req w)) n = commentsUrl w n"
  by (simp_all add: discussionUrl_def commentsUrl_def)

lemma handleDiscussion_requests:
  "requests (handleDiscussion net rd n w)
     = requests w @ [getRequest (discussionUrl w n), getRequest (commentsUrl w n)]"
proof -
  obtain d w1 where d: "fetchDiscussion net n w = (d, w1)" by (cases "fetchDiscussion net n w")
  obtain cs w2 where c: "fetchComments net n w1 = (cs, w2)" by (cases "fetchComments net n w1")
  have w1: "w1 = snd (fetch net (getRequest (discussionUrl w n)) w)"
    using fetchDiscussion_world [of net n w] d by simp
  have w2: "w2 = snd (fetch net (getRequest (commentsUrl w1 n)) w1)"
    using fetchComments_world [of net n w1] c by simp
  have r2: "requests w2 = requests w @ [getRequest (discussionUrl w n), getRequest (commentsUrl w n)]"
    by (simp add: w2 w1)
  show ?thesis
    by (simp add: handleDiscussion_def d c bindE_def r2 split: sum.splits)
qed

lemma handleDiscussion_null:
  assumes "fst (fetchDiscussion net n w) = Inr JNull"
  shows "app (handleDiscussion net rd n w) = renderError (str ''Discussion not found'') []
       \<and> wired (handleDiscussion net rd n w) = wired w"
proof -
  obtain w1 where d: "fetchDiscussion net n w = (Inr JNull, w1)"
    using assms by (cases "fetchDiscussion net n w") auto
  obtain rc w2 where c: "fetchComments net n w1 = (rc, w2)" by (cases "fetchComments net n w1")
  obtain cs where rc: "rc = Inr cs"
    using fetchComments_Inr [of net n w1] c by auto
  have w1: "w1 = snd (fetch net (getRequest (discussionUrl w n)) w)"
    using fetchDiscussion_world [of net n w] d by simp
  have w2: "w2 = snd (fetch net (getRequest (commentsUrl w1 n)) w1)"
    using fetchComments_world [of net n w1] c by simp
  have ww: "wired w2 = wired w"
    by (simp add: w2 w1)
  show ?thesis
    by (simp add: handleDiscussion_def d c rc bindE_def ww)
qed

text \<open>
  C4, as the code has it. \<open>handleDiscussion\<close> issues the request for the discussion and
  the request for its comments, in this order, whatever the answers are. When the
  discussion is not there (the fetch gives \<open>null\<close>, as it does for every status outside
  200 to 299), the page shows the message "Discussion not found" and no handler is
  attached; what the comments request brought is dropped.
\<close>

theorem handleDiscussion_not_found:
  "requests (handleDiscussion net rd n w)
     = requests w @ [getRequest (discussionUrl w n), getRequest (commentsUrl w n)]
   \<and> (fst (fetchDiscussion net n w) = Inr JNull \<longrightarrow>
        app (handleDiscussion net rd n w) = renderError (str ''Discussion not found'') []
        \<and> wired (handleDiscussion net rd n w) = wired w)"
  using handleDiscussion_requests [of net rd n w] handleDiscussion_null [of net n w rd]
  by simp

lemma fetchDiscussion_404:
  "fst (fetchDiscussion (answering 404 JNull) (str ''999'') freshWorld) = Inr JNull"
  by (simp add: fetchDiscussion_def fetchDiscussionTry_def fetch_def bindE_def ok_def answering_def)

theorem handleDiscussion_not_found_witness:
  "fst (fetchDiscussion (answering 404 JNull) (str ''999'') freshWorld) = Inr JNull
   \<and> app (handleDiscussion (answering 404 JNull) (\<lambda>d cs. Inr []) (str ''999'') freshWorld)
       = renderError (str ''Discussion not found'') []
   \<and> wired (handleDiscussion (answering 404 JNull) (\<lambda>d cs. Inr []) (str ''999'') freshWorld) = []"
  using handleDiscussion_not_found [of "answering 404 JNull" "\<lambda>d cs. Inr []" "str ''999''" freshWorld]
    fetchDiscussion_404
  by (simp add: freshWorld_def)

text \<open>
  C4 as stated fails: for a discussion that does not exist (status 404) the comments
  are requested all the same.
\<close>

theorem handleDiscussion_comments_counterexample:
  "fst (fetchDiscussion (answering 404 JNull) (str ''999'') freshWorld) = Inr JNull
   \<and> map req_url (requests (handleDiscussion (answering 404 JNull) (\<lambda>d cs. Inr []) (str ''999'') freshWorld))
       = [str ''https://api.github.com/repos/kody-w/rappterbook-vm/discussions/999'',
          str ''https://api.github.com/repos/kody-w/rappterbook-vm/discussions/999/comments'']"
  using fetchDiscussion_404
  by (simp add: handleDiscussion_requests freshWorld_def getRequest_def discussionUrl_def
        commentsUrl_def str_def)

section \<open>Properties of the home feed\<close>













section \<open>Properties of the comment tree\<close>

lemma indexById_absent:
  "\<forall>x\<in>set cs. objProp x (str ''id'') \<noteq> k \<Longrightarrow> indexById i cs m k = m k"
  by (induction cs arbitrary: i m) auto

lemma indexById_unique:
  assumes "j < length cs" and "objProp (cs ! j) (str ''id'') = k" and "truthy k" and "primitive k"
    and "\<forall>j'<length cs. objProp (cs ! j') (str ''id'') = k \<longrightarrow> j' = j"
  shows "indexById i cs m k = Some (i + j)"
  using assms
proof (induction cs arbitrary: i m j)
  case Nil
  then show ?case by simp
next
  case (Cons c cs)
  note uniq = Cons.prems(5) [rule_format]
  show ?case
  proof (cases j)
    case 0
    have "\<forall>x\<in>set cs. objProp x (str ''id'') \<noteq> k"
    proof
      fix x assume "x \<in> set cs"
      then obtain n where n: "n < length cs" "cs ! n = x" by (auto simp: in_set_conv_nth)
      show "objProp x (str ''id'') \<noteq> k"
      proof
        assume "objProp x (str ''id'') = k"
        then have "Suc n = j" using uniq [of "Suc n"] n by simp
        then show False using 0 by simp
      qed
    qed
    then have "indexById (Suc i) cs m' k = m' k" for m'
      by (rule indexById_absent)
    moreover have "objProp c (str ''id'') = k"
      using Cons.prems(2) 0 by simp
    ultimately show ?thesis
      using Cons.prems(3,4) 0 by simp
  next
    case (Suc j')
    have u: "\<forall>n<length cs. objProp (cs ! n) (str ''id'') = k \<longrightarrow> n = j'"
    proof (intro allI impI)
      fix n assume "n < length cs" "objProp (cs ! n) (str ''id'') = k"
      then have "Suc n = j" using uniq [of "Suc n"] by simp
      then show "n = j'" using Suc by simp
    qed
    have j': "j' < length cs" "objProp (cs ! j') (str ''id'') = k"
      using Cons.prems(1,2) Suc by simp_all
    have "indexById (Suc i) cs m' k = Some (Suc i + j')" for m'
      by (rule Cons.IH [OF j' Cons.prems(3,4) u])
    then show ?thesis using Suc by simp
  qed
qed

lemma attach_mono:
  "set rs \<subseteq> set (fst (attach byId i cs (rs, rp)))
   \<and> set (rp k) \<subseteq> set (snd (attach byId i cs (rs, rp)) k)"
proof (induction cs arbitrary: i rs rp)
  case Nil
  show ?case by simp
next
  case (Cons c cs)
  show ?case
  proof (cases "truthy (objProp c (str ''parentId'')) \<and> byId (objProp c (str ''parentId'')) \<noteq> None")
    case True
    define q where "q = the (byId (objProp c (str ''parentId'')))"
    have step: "attach byId i (c # cs) (rs, rp) = attach byId (Suc i) cs (rs, rp(q := rp q @ [i]))"
      using True by (simp add: q_def)
    have sub: "set (rp k) \<subseteq> set ((rp(q := rp q @ [i])) k)"
      by (cases "k = q") auto
    show ?thesis
      unfolding step
      using Cons.IH [of rs "Suc i" "rp(q := rp q @ [i])"] sub by blast
  next
    case False
    have step: "attach byId i (c # cs) (rs, rp) = attach byId (Suc i) cs (rs @ [i], rp)"
      using False by auto
    show ?thesis
      unfolding step
      using Cons.IH [of "rs @ [i]" "Suc i" rp] by auto
  qed
qed

lemma attach_root:
  "j < length cs \<Longrightarrow> parentIn byId (cs ! j) = None
     \<Longrightarrow> i + j \<in> set (fst (attach byId i cs (rs, rp)))"
proof (induction cs arbitrary: i j rs rp)
  case Nil
  then show ?case by simp
next
  case (Cons c cs)
  show ?case
  proof (cases j)
    case 0
    then have "parentIn byId c = None" using Cons.prems by simp
    then have "attach byId i (c # cs) (rs, rp) = attach byId (Suc i) cs (rs @ [i], rp)"
      by (auto simp: parentIn_def split: if_splits)
    then show ?thesis
      using attach_mono [of "rs @ [i]" byId "Suc i" cs rp] 0 by (simp add: subset_iff)
  next
    case (Suc j')
    then have "Suc i + j' \<in> set (fst (attach byId (Suc i) cs (rs', rp')))" for rs' rp'
      using Cons.IH [of j' "Suc i"] Cons.prems by simp
    then show ?thesis using Suc by (simp split: if_splits)
  qed
qed

lemma attach_reply:
  "j < length cs \<Longrightarrow> parentIn byId (cs ! j) = Some k
     \<Longrightarrow> i + j \<in> set (snd (attach byId i cs (rs, rp)) k)"
proof (induction cs arbitrary: i j rs rp)
  case Nil
  then show ?case by simp
next
  case (Cons c cs)
  show ?case
  proof (cases j)
    case 0
    then have p: "parentIn byId c = Some k" using Cons.prems by simp
    then have t: "truthy (objProp c (str ''parentId''))" "byId (objProp c (str ''parentId'')) = Some k"
      by (auto simp: parentIn_def split: if_splits)
    have "attach byId i (c # cs) (rs, rp) = attach byId (Suc i) cs (rs, rp(k := rp k @ [i]))"
      using t by simp
    then show ?thesis
      using attach_mono [of rs byId "Suc i" cs "rp(k := rp k @ [i])" k] 0 by (simp add: subset_iff)
  next
    case (Suc j')
    then have "Suc i + j' \<in> set (snd (attach byId (Suc i) cs (rs', rp')) k)" for rs' rp'
      using Cons.IH [of j' "Suc i"] Cons.prems by simp
    then show ?thesis using Suc by (simp split: if_splits)
  qed
qed

lemma attach_root_only:
  "n \<in> set (fst (attach byId i cs (rs, rp)))
     \<Longrightarrow> n \<in> set rs \<or> (\<exists>j<length cs. n = i + j \<and> parentIn byId (cs ! j) = None)"
proof (induction cs arbitrary: i rs rp)
  case Nil
  then show ?case by simp
next
  case (Cons c cs)
  show ?case
  proof (cases "truthy (objProp c (str ''parentId'')) \<and> byId (objProp c (str ''parentId'')) \<noteq> None")
    case True
    then have "n \<in> set (fst (attach byId (Suc i) cs (rs, rp(the (byId (objProp c (str ''parentId''))) :=
                               rp (the (byId (objProp c (str ''parentId'')))) @ [i]))))"
      using Cons.prems by simp
    then have "n \<in> set rs \<or> (\<exists>j<length cs. n = Suc i + j \<and> parentIn byId (cs ! j) = None)"
      by (rule Cons.IH)
    then show ?thesis by (auto intro: exI [where x = "Suc j" for j])
  next
    case False
    then have "n \<in> set (fst (attach byId (Suc i) cs (rs @ [i], rp)))"
      using Cons.prems by auto
    then have "n \<in> set (rs @ [i]) \<or> (\<exists>j<length cs. n = Suc i + j \<and> parentIn byId (cs ! j) = None)"
      by (rule Cons.IH)
    moreover have "parentIn byId c = None" using False by (auto simp: parentIn_def)
    ultimately show ?thesis
      by (auto intro: exI [where x = 0] exI [where x = "Suc j" for j])
  qed
qed

lemma parentIn_notPresent:
  assumes "notPresent cs (objProp c (str ''parentId''))"
  shows "parentIn (indexById 0 cs Map.empty) c = None"
proof (cases "truthy (objProp c (str ''parentId''))")
  case True
  then have "\<forall>x\<in>set cs. objProp x (str ''id'') \<noteq> objProp c (str ''parentId'')"
    using assms by (simp add: notPresent_def)
  then have "indexById 0 cs Map.empty (objProp c (str ''parentId'')) = None"
    by (simp add: indexById_absent)
  then show ?thesis by (simp add: parentIn_def)
next
  case False
  then show ?thesis by (simp add: parentIn_def)
qed

text \<open>
  C6, as the code has it. In any list of comments, at any positions \<open>a\<close>, \<open>b\<close>, \<open>c\<close>: if
  the comment at \<open>a\<close> has an id that is a number, string or boolean, is truthy and is the
  id of no other comment, the parent id of the comment at \<open>b\<close> is that id, and the parent
  ids of the comments at \<open>a\<close> and \<open>c\<close> are absent or the id of no comment of the list,
  then the comments at \<open>a\<close> and \<open>c\<close> are roots, and the comment at \<open>b\<close> is no root but a
  reply of the comment at \<open>a\<close>. The list and the positions are arbitrary, so the order of
  the comments plays no part.
\<close>

theorem commentForest_roots_and_reply:
  assumes a: "a < length cs" and b: "b < length cs" and c: "c < length cs"
    and idA: "truthy (objProp (cs ! a) (str ''id''))" "primitive (objProp (cs ! a) (str ''id''))"
    and uniq: "\<forall>j<length cs. objProp (cs ! j) (str ''id'') = objProp (cs ! a) (str ''id'') \<longrightarrow> j = a"
    and parB: "objProp (cs ! b) (str ''parentId'') = objProp (cs ! a) (str ''id'')"
    and rootA: "notPresent cs (objProp (cs ! a) (str ''parentId''))"
    and rootC: "notPresent cs (objProp (cs ! c) (str ''parentId''))"
  shows "a \<in> set (roots cs) \<and> c \<in> set (roots cs) \<and> b \<notin> set (roots cs) \<and> b \<in> set (replies cs a)"
proof -
  let ?byId = "indexById 0 cs Map.empty"
  have pa: "parentIn ?byId (cs ! a) = None" by (rule parentIn_notPresent [OF rootA])
  have pc: "parentIn ?byId (cs ! c) = None" by (rule parentIn_notPresent [OF rootC])
  have "?byId (objProp (cs ! a) (str ''id'')) = Some (0 + a)"
    by (rule indexById_unique [OF a refl idA uniq])
  then have pb: "parentIn ?byId (cs ! b) = Some a"
    using idA(1) by (simp add: parentIn_def parB)
  have ra: "a \<in> set (roots cs)"
    using attach_root [OF a pa, of 0 "[]" "\<lambda>i. []"] by (simp add: roots_def commentForest_def)
  have rc: "c \<in> set (roots cs)"
    using attach_root [OF c pc, of 0 "[]" "\<lambda>i. []"] by (simp add: roots_def commentForest_def)
  have rb: "b \<in> set (replies cs a)"
    using attach_reply [OF b pb, of 0 "[]" "\<lambda>i. []"] by (simp add: replies_def commentForest_def)
  have nb: "b \<notin> set (roots cs)"
  proof
    assume "b \<in> set (roots cs)"
    then have "b \<in> set (fst (attach ?byId 0 cs ([], \<lambda>i. [])))"
      by (simp add: roots_def commentForest_def)
    then have "b \<in> set [] \<or> (\<exists>j<length cs. b = 0 + j \<and> parentIn ?byId (cs ! j) = None)"
      by (rule attach_root_only)
    then show False using pb by simp
  qed
  show ?thesis using ra rc nb rb by simp
qed

lemmas forest_eval =
  roots_def replies_def commentForest_def mkComment_def objProp_def notPresent_def str_def

theorem commentForest_roots_and_reply_witness:
  "roots [mkComment (JNum 3) (JNum 99), mkComment (JNum 2) (JNum 1), mkComment (JNum 1) JNull] = [0, 2]
   \<and> replies [mkComment (JNum 3) (JNum 99), mkComment (JNum 2) (JNum 1), mkComment (JNum 1) JNull] 2 = [1]
   \<and> 2 \<in> set (roots [mkComment (JNum 3) (JNum 99), mkComment (JNum 2) (JNum 1), mkComment (JNum 1) JNull])
   \<and> 1 \<notin> set (roots [mkComment (JNum 3) (JNum 99), mkComment (JNum 2) (JNum 1), mkComment (JNum 1) JNull])"
proof -
  let ?cs = "[mkComment (JNum 3) (JNum 99), mkComment (JNum 2) (JNum 1), mkComment (JNum 1) JNull]"
  have u: "\<forall>j<length ?cs. objProp (?cs ! j) (str ''id'') = objProp (?cs ! 2) (str ''id'') \<longrightarrow> j = 2"
    by (auto simp: mkComment_def objProp_def str_def nth_Cons' less_Suc_eq numeral_3_eq_3)
  have m: "2 \<in> set (roots ?cs) \<and> 0 \<in> set (roots ?cs) \<and> 1 \<notin> set (roots ?cs) \<and> 1 \<in> set (replies ?cs 2)"
    by (rule commentForest_roots_and_reply [OF _ _ _ _ _ u])
       (simp_all add: mkComment_def objProp_def notPresent_def str_def)
  have e: "roots ?cs = [0, 2] \<and> replies ?cs 2 = [1]"
    by (simp add: forest_eval)
  show ?thesis using m e by simp
qed

text \<open>
  C6 as stated fails: in the thread D, A (a reply to D), B (a reply to A), C, the comment
  B has A as its parent and C has none, yet A is no root.
\<close>

theorem commentForest_nested_counterexample:
  "roots [mkComment (JNum 1) JNull, mkComment (JNum 2) (JNum 1), mkComment (JNum 3) (JNum 2),
          mkComment (JNum 4) JNull] = [0, 3]
   \<and> replies [mkComment (JNum 1) JNull, mkComment (JNum 2) (JNum 1), mkComment (JNum 3) (JNum 2),
          mkComment (JNum 4) JNull] 1 = [2]"
  by (simp add: forest_eval)

end
